theory Spec2Isabelle
  imports Main
begin

section \<open>Strings\<close>

text \<open>
  A string of the program is modelled as a \<^typ>\<open>string\<close>: the bytes of its UTF-8 form,
  which is the form in which the URL serialiser percent-encodes it. A code point beyond
  ASCII is a sequence of two to four bytes. A string with an unpaired surrogate has no
  UTF-8 form and is outside the model.
\<close>

text \<open>
  The white space and line terminators that \<^verbatim>\<open>String.prototype.trim\<close> and the
  leading-blank skipping of \<^verbatim>\<open>Number.parseInt\<close> remove, each as its UTF-8 bytes:
  U+0009..U+000D, U+0020, U+00A0, U+1680, U+2000..U+200A, U+2028, U+2029, U+202F,
  U+205F, U+3000 and U+FEFF.
\<close>

definition whitespace :: "string list" where
  "whitespace =
    [[CHR 0x09], [CHR 0x0A], [CHR 0x0B], [CHR 0x0C], [CHR 0x0D], [CHR 0x20],
     [CHR 0xC2, CHR 0xA0],
     [CHR 0xE1, CHR 0x9A, CHR 0x80],
     [CHR 0xE2, CHR 0x80, CHR 0x80], [CHR 0xE2, CHR 0x80, CHR 0x81],
     [CHR 0xE2, CHR 0x80, CHR 0x82], [CHR 0xE2, CHR 0x80, CHR 0x83],
     [CHR 0xE2, CHR 0x80, CHR 0x84], [CHR 0xE2, CHR 0x80, CHR 0x85],
     [CHR 0xE2, CHR 0x80, CHR 0x86], [CHR 0xE2, CHR 0x80, CHR 0x87],
     [CHR 0xE2, CHR 0x80, CHR 0x88], [CHR 0xE2, CHR 0x80, CHR 0x89],
     [CHR 0xE2, CHR 0x80, CHR 0x8A],
     [CHR 0xE2, CHR 0x80, CHR 0xA8], [CHR 0xE2, CHR 0x80, CHR 0xA9],
     [CHR 0xE2, CHR 0x80, CHR 0xAF],
     [CHR 0xE2, CHR 0x81, CHR 0x9F],
     [CHR 0xE3, CHR 0x80, CHR 0x80],
     [CHR 0xEF, CHR 0xBB, CHR 0xBF]]"

text \<open>The white-space character a string starts with (ends with), if there is one.\<close>

definition leading_ws :: "string \<Rightarrow> string option" where
  "leading_ws s = find (\<lambda>w. take (length w) s = w) whitespace"

definition trailing_ws :: "string \<Rightarrow> string option" where
  "trailing_ws s = find (\<lambda>w. drop (length s - length w) s = w) whitespace"

function trimStart :: "string \<Rightarrow> string" where
  "trimStart s =
     (case leading_ws s of
        None \<Rightarrow> s
      | Some w \<Rightarrow> trimStart (drop (length w) s))"
  by pat_completeness auto
termination
proof (relation "measure length")
  fix s w
  assume "leading_ws s = Some w"
  then have w: "w \<in> set whitespace" and p: "take (length w) s = w"
    by (auto simp: leading_ws_def find_Some_iff)
  from w have "w \<noteq> []" by (auto simp: whitespace_def)
  with p have "s \<noteq> []" by auto
  with \<open>w \<noteq> []\<close> show "(drop (length w) s, s) \<in> measure length" by simp
qed simp

function trimEnd :: "string \<Rightarrow> string" where
  "trimEnd s =
     (case trailing_ws s of
        None \<Rightarrow> s
      | Some w \<Rightarrow> trimEnd (take (length s - length w) s))"
  by pat_completeness auto
termination
proof (relation "measure length")
  fix s w
  assume "trailing_ws s = Some w"
  then have w: "w \<in> set whitespace" and p: "drop (length s - length w) s = w"
    by (auto simp: trailing_ws_def find_Some_iff)
  from w have "w \<noteq> []" by (auto simp: whitespace_def)
  with p have "s \<noteq> []" by auto
  with \<open>w \<noteq> []\<close> show "(take (length s - length w) s, s) \<in> measure length" by simp
qed simp

declare trimStart.simps [simp del] trimEnd.simps [simp del]

definition trim :: "string \<Rightarrow> string" where
  "trim s = trimEnd (trimStart s)"

section \<open>Numbers\<close>

text \<open>
  The numbers of the program are doubles: the results of \<^verbatim>\<open>Number.parseInt(s, 10)\<close>,
  which are NaN, an integer that a double holds, or an infinity. An integer of the model
  stands for the double nearest to it. Minus zero is zero: nothing the program does with
  a year tells the two apart.
\<close>

datatype number = NaN | Num int | Infinity | MinusInfinity

text \<open>
  The double nearest to an integer that is not negative: up to \<open>2^53\<close> the integer
  itself, beyond it the integer rounded to 53 significant bits, a tie going to the even
  significand, and \<open>None\<close> when the rounded integer is beyond the largest double. The
  sign is dealt with where the function is used.
\<close>

function bit_length :: "int \<Rightarrow> nat" where
  "bit_length m = (if m \<le> 0 then 0 else Suc (bit_length (m div 2)))"
  by pat_completeness auto
termination
  by (relation "measure nat") auto

declare bit_length.simps [simp del]

definition round_double :: "int \<Rightarrow> int option" where
  "round_double m =
     (if m < 9007199254740992 then Some m
      else
        (let e = bit_length m - 53;
             q = m div 2 ^ e;
             r = m mod 2 ^ e;
             half = 2 ^ (e - 1);
             q' = (if half < r \<or> (r = half \<and> odd q) then q + 1 else q)
         in if 2 ^ 1024 \<le> q' * 2 ^ e then None else Some (q' * 2 ^ e)))"

definition is_digit :: "char \<Rightarrow> bool" where
  "is_digit c = (48 \<le> (of_char c :: nat) \<and> (of_char c :: nat) \<le> 57)"

definition digit_value :: "char \<Rightarrow> int" where
  "digit_value c = of_char c - 48"

definition digits_value :: "string \<Rightarrow> int" where
  "digits_value ds = foldl (\<lambda>n c. 10 * n + digit_value c) 0 ds"

text \<open>
  \<^verbatim>\<open>Number.parseInt(inputString, 10)\<close>: leading white space is skipped, one sign is
  read, then the longest run of decimal digits; what follows the digits is ignored, and
  no digit at all gives NaN. The result is the double nearest to the integer read.
\<close>

definition parseInt :: "string \<Rightarrow> number" where
  "parseInt inputString =
     (let S = trimStart inputString;
          sign = (case S of c # _ \<Rightarrow> if c = CHR ''-'' then - 1 else 1 | [] \<Rightarrow> 1);
          S' = (case S of c # r \<Rightarrow> if c = CHR ''+'' \<or> c = CHR ''-'' then r else S | [] \<Rightarrow> S);
          Z = takeWhile is_digit S'
      in if Z = [] then NaN
         else
           (case round_double (digits_value Z) of
              None \<Rightarrow> if sign < 0 then MinusInfinity else Infinity
            | Some v \<Rightarrow> Num (sign * v)))"

text \<open>\<^verbatim>\<open>Number.isFinite\<close>, applied to a number or to \<^verbatim>\<open>undefined\<close>.\<close>

fun isFinite :: "number option \<Rightarrow> bool" where
  "isFinite (Some (Num n)) = True"
| "isFinite (Some NaN) = False"
| "isFinite (Some Infinity) = False"
| "isFinite (Some MinusInfinity) = False"
| "isFinite None = False"

text \<open>
  The text of a number, as a template literal renders it. Up to \<open>2^53\<close> it is the decimal
  numeral. Beyond, it is made of the fewest digits that still round to the same double,
  the nearest such if there are two and the even one if they are as near: these digits,
  filled up with zeros, below \<open>10^21\<close>, and in exponent notation from there on.
\<close>

definition digit_char :: "int \<Rightarrow> char" where
  "digit_char d = char_of (48 + d)"

function digits :: "int \<Rightarrow> string" where
  "digits n = (if n < 10 then [digit_char n] else digits (n div 10) @ [digit_char (n mod 10)])"
  by pat_completeness auto
termination
  by (relation "measure nat") auto

declare digits.simps [simp del]

function shortest :: "int \<Rightarrow> int \<Rightarrow> int" where
  "shortest x p =
     (if p \<le> 1 then x
      else
        (let lo = (x div p) * p;
             hi = lo + p;
             lo_fits = (round_double lo = Some x);
             hi_fits = (round_double hi = Some x)
         in if lo_fits \<and> hi_fits then
              (if x - lo < hi - x then lo
               else if hi - x < x - lo then hi
               else if even (x div p) then lo else hi)
            else if lo_fits then lo
            else if hi_fits then hi
            else shortest x (p div 10)))"
  by pat_completeness auto
termination
  by (relation "measure (\<lambda>(x, p). nat p)") auto

declare shortest.simps [simp del]

definition exponential :: "int \<Rightarrow> string" where
  "exponential v =
     (let ds = digits v;
          s = rev (dropWhile (\<lambda>c. c = CHR ''0'') (rev ds))
      in (case s of
            [] \<Rightarrow> ds
          | d # rest \<Rightarrow>
              d # (if rest = [] then [] else CHR ''.'' # rest) @ ''e+'' @
              digits (int (length ds) - 1)))"

definition Number_toString :: "int \<Rightarrow> string" where
  "Number_toString m =
     (case round_double m of
        None \<Rightarrow> ''Infinity''
      | Some x \<Rightarrow>
          if x < 9007199254740992 then digits x
          else
            (let v = shortest x (10 ^ (length (digits x) - 1))
             in if v < 10 ^ 21 then digits v else exponential v))"

definition toString :: "int \<Rightarrow> string" where
  "toString n = (if n < 0 then CHR ''-'' # Number_toString (- n) else Number_toString n)"

section \<open>URLs\<close>

text \<open>
  \<^verbatim>\<open>Array.prototype.join\<close> on strings.
\<close>

fun join :: "string \<Rightarrow> string list \<Rightarrow> string" where
  "join sep [] = []"
| "join sep [x] = x"
| "join sep (x # y # ys) = x @ sep @ join sep (y # ys)"

text \<open>
  The \<^verbatim>\<open>application/x-www-form-urlencoded\<close> serialiser behind
  \<^verbatim>\<open>URLSearchParams\<close>: ASCII letters and digits and \<^verbatim>\<open>* - . _\<close> stay, a space becomes
  \<^verbatim>\<open>+\<close>, and every other byte becomes \<^verbatim>\<open>%\<close> and two upper-case hexadecimal digits.
\<close>

definition is_alnum :: "char \<Rightarrow> bool" where
  "is_alnum c =
     (let n = (of_char c :: nat)
      in (48 \<le> n \<and> n \<le> 57) \<or> (65 \<le> n \<and> n \<le> 90) \<or> (97 \<le> n \<and> n \<le> 122))"

definition unreserved :: "char \<Rightarrow> bool" where
  "unreserved c =
     (is_alnum c \<or> c = CHR ''*'' \<or> c = CHR ''-'' \<or> c = CHR ''.'' \<or> c = CHR ''_'')"

definition hex_digit :: "nat \<Rightarrow> char" where
  "hex_digit d = (if d < 10 then char_of (48 + d) else char_of (55 + d))"

definition percent_encode :: "char \<Rightarrow> string" where
  "percent_encode c =
     (if unreserved c then [c]
      else if c = CHR '' '' then ''+''
      else [CHR ''%'', hex_digit ((of_char c :: nat) div 16), hex_digit ((of_char c :: nat) mod 16)])"

definition urlencoded :: "string \<Rightarrow> string" where
  "urlencoded s = concat (map percent_encode s)"

definition serialize :: "(string \<times> string) list \<Rightarrow> string" where
  "serialize ps = join ''&'' (map (\<lambda>(name, v). urlencoded name @ ''='' @ urlencoded v) ps)"

text \<open>
  The parser of the same format, which reads the parameters of a URL back:
  the query is cut at each \<^verbatim>\<open>&\<close>, each non-empty piece at its first \<^verbatim>\<open>=\<close>, then
  \<^verbatim>\<open>+\<close> is read as a space and \<^verbatim>\<open>%XX\<close> as the byte it stands for.
\<close>

fun split :: "char \<Rightarrow> string \<Rightarrow> string list" where
  "split d [] = [[]]"
| "split d (c # cs) =
     (if c = d then [] # split d cs
      else (case split d cs of [] \<Rightarrow> [[c]] | x # xs \<Rightarrow> (c # x) # xs))"

definition is_hex :: "char \<Rightarrow> bool" where
  "is_hex c =
     (let n = (of_char c :: nat)
      in (48 \<le> n \<and> n \<le> 57) \<or> (65 \<le> n \<and> n \<le> 70) \<or> (97 \<le> n \<and> n \<le> 102))"

definition hex_value :: "char \<Rightarrow> nat" where
  "hex_value c =
     (let n = (of_char c :: nat)
      in if n \<le> 57 then n - 48 else if n \<le> 70 then n - 55 else n - 87)"

fun percent_decode :: "string \<Rightarrow> string" where
  "percent_decode (c # h # l # cs) =
     (if c = CHR ''%'' \<and> is_hex h \<and> is_hex l
      then char_of (16 * hex_value h + hex_value l) # percent_decode cs
      else c # percent_decode (h # l # cs))"
| "percent_decode cs = cs"

definition form_decode :: "string \<Rightarrow> string" where
  "form_decode s = percent_decode (map (\<lambda>c. if c = CHR ''+'' then CHR '' '' else c) s)"

definition parse_pair :: "string \<Rightarrow> string \<times> string" where
  "parse_pair piece =
     (let name = takeWhile (\<lambda>c. c \<noteq> CHR ''='') piece;
          v = drop (Suc (length name)) piece
      in (form_decode name, form_decode v))"

definition parse_query :: "string \<Rightarrow> (string \<times> string) list" where
  "parse_query q = map parse_pair (filter (\<lambda>piece. piece \<noteq> []) (split (CHR ''&'') q))"

text \<open>
  A \<^verbatim>\<open>URL\<close> object: what precedes the query, and the list of its search parameters.
  The URLs of this program are absolute, already in normal form and without fragment.
\<close>

record URL =
  location :: string
  searchParams :: "(string \<times> string) list"

definition new_URL :: "string \<Rightarrow> URL" where
  "new_URL s =
     \<lparr> location = takeWhile (\<lambda>c. c \<noteq> CHR ''?'') s,
       searchParams = parse_query (drop 1 (dropWhile (\<lambda>c. c \<noteq> CHR ''?'') s)) \<rparr>"

definition URL_toString :: "URL \<Rightarrow> string" where
  "URL_toString u =
     location u @ (if searchParams u = [] then [] else ''?'' @ serialize (searchParams u))"

text \<open>
  \<^verbatim>\<open>URLSearchParams.set\<close>: the first parameter of that name takes the value and the
  later ones of that name go; with none of that name, the parameter is appended.
\<close>

fun params_set :: "string \<Rightarrow> string \<Rightarrow> (string \<times> string) list \<Rightarrow> (string \<times> string) list" where
  "params_set name v [] = [(name, v)]"
| "params_set name v ((k, w) # ps) =
     (if k = name then (name, v) # filter (\<lambda>p. fst p \<noteq> name) ps
      else (k, w) # params_set name v ps)"

definition searchParams_set :: "string \<Rightarrow> string \<Rightarrow> URL \<Rightarrow> URL" where
  "searchParams_set name v u = u \<lparr> searchParams := params_set name v (searchParams u) \<rparr>"

text \<open>\<^verbatim>\<open>URLSearchParams.getAll\<close>: the values of all parameters of that name, in order.\<close>

definition searchParams_getAll :: "string \<Rightarrow> URL \<Rightarrow> string list" where
  "searchParams_getAll name u = map snd (filter (\<lambda>p. fst p = name) (searchParams u))"

section \<open>The query builder\<close>

text \<open>
  The \<^verbatim>\<open>Date\<close> object that \<^verbatim>\<open>new Date()\<close> creates: its time value, and the calendar
  year \<^verbatim>\<open>getFullYear()\<close> reports for it in the server's time zone.
\<close>

record date =
  getTime :: int
  getFullYear :: int

text \<open>The argument of \<^verbatim>\<open>buildQueryURL\<close>; an optional field is \<open>None\<close> when undefined.\<close>

record search_filters =
  query :: string
  startYear :: "int option"
  endYear :: "int option"
  publicationType :: "string option"

text \<open>What a condition makes of an optional number and of an optional string.\<close>

fun truthy_number :: "int option \<Rightarrow> bool" where
  "truthy_number None = False"
| "truthy_number (Some n) = (n \<noteq> 0)"

fun truthy_string :: "string option \<Rightarrow> bool" where
  "truthy_string None = False"
| "truthy_string (Some s) = (s \<noteq> [])"

definition SEMANTIC_SCHOLAR_ENDPOINT :: string where
  "SEMANTIC_SCHOLAR_ENDPOINT = ''https://api.semanticscholar.org/graph/v1/paper/search''"

definition DEFAULT_LIMIT :: int where
  "DEFAULT_LIMIT = 15"

definition buildQueryURL :: "date \<Rightarrow> search_filters \<Rightarrow> string" where
  "buildQueryURL now f =
     (let url = new_URL SEMANTIC_SCHOLAR_ENDPOINT;
          url = searchParams_set ''query'' (query f) url;
          url = searchParams_set ''limit'' (toString DEFAULT_LIMIT) url;
          url = searchParams_set ''fields''
                  ''title,abstract,year,authors,venue,url,publicationTypes,journal'' url;
          filters = [];
          filters =
            (if truthy_number (startYear f) \<or> truthy_number (endYear f) then
               (let start = (case startYear f of Some n \<Rightarrow> n | None \<Rightarrow> 1900);
                    end = (case endYear f of Some n \<Rightarrow> n | None \<Rightarrow> getFullYear now)
                in filters @ [''year>='' @ toString start] @ [''year<='' @ toString end])
             else filters);
          filters =
            (case publicationType f of
               Some t \<Rightarrow> if t \<noteq> [] then filters @ [''publicationTypes:'' @ t] else filters
             | None \<Rightarrow> filters);
          url = (if length filters > 0 then searchParams_set ''filter'' (join '','' filters) url
                 else url)
      in URL_toString url)"

section \<open>The search route\<close>

text \<open>Errors that are thrown, as values.\<close>

datatype js_error = SyntaxError string | TypeError string | Error string

text \<open>
  A JSON value, as \<^verbatim>\<open>response.json()\<close> yields it and as \<^verbatim>\<open>NextResponse.json\<close> sends it.
  The route computes with no number of the provider's: numbers are of any type \<open>'n\<close>.
\<close>

datatype 'n json =
    JNull
  | JBool bool
  | JNumber 'n
  | JString string
  | JArray "'n json list"
  | JObject "(string \<times> 'n json) list"

text \<open>
  Reading the member \<^verbatim>\<open>data\<close> or \<^verbatim>\<open>total\<close> of a parsed value: \<^verbatim>\<open>null\<close> throws, an object
  gives the member (the last of that name in the text) or \<^verbatim>\<open>undefined\<close>, and anything
  else has no such member.
\<close>

fun get_property :: "'n json \<Rightarrow> string \<Rightarrow> js_error + 'n json option" where
  "get_property JNull k =
     Inl (TypeError (''Cannot read properties of null (reading '' @ [CHR 0x27] @ k @ [CHR 0x27] @ '')''))"
| "get_property (JObject ms) k = Inr (map_of (rev ms) k)"
| "get_property (JBool b) k = Inr None"
| "get_property (JNumber n) k = Inr None"
| "get_property (JString s) k = Inr None"
| "get_property (JArray vs) k = Inr None"

text \<open>
  The response \<^verbatim>\<open>NextResponse.json(value, {status})\<close> of the route. The value is an object
  literal; a member that is \<^verbatim>\<open>undefined\<close> is left out of the JSON text.
\<close>

record 'n next_response =
  http_status :: nat
  body :: "'n json"

fun defined_members :: "(string \<times> 'n json option) list \<Rightarrow> (string \<times> 'n json) list" where
  "defined_members [] = []"
| "defined_members ((k, None) # ms) = defined_members ms"
| "defined_members ((k, Some v) # ms) = (k, v) # defined_members ms"

definition NextResponse_json :: "(string \<times> 'n json option) list \<Rightarrow> nat \<Rightarrow> 'n next_response" where
  "NextResponse_json members st = \<lparr> http_status = st, body = JObject (defined_members members) \<rparr>"

text \<open>
  The provider's side. A call of \<^verbatim>\<open>fetch\<close> is its URL and options; it throws or gives a
  response, of which the route reads the status, and the body as text or as JSON, either
  of which may throw.
\<close>

record fetch_call =
  url :: string
  headers :: "(string \<times> string) list"
  revalidate :: nat

record 'n response =
  response_status :: nat
  response_text :: "js_error + string"
  response_json :: "js_error + 'n json"

definition ok :: "'n response \<Rightarrow> bool" where
  "ok r = (200 \<le> response_status r \<and> response_status r \<le> 299)"

text \<open>The world a request is handled in: the clock and the network.\<close>

record 'n env =
  now :: date
  fetch :: "fetch_call \<Rightarrow> js_error + 'n response"

text \<open>
  The inbound request: what \<^verbatim>\<open>request.json()\<close> throws or yields. The body is typed as
  the route declares it and as the search form sends it: each field is a string or
  undefined.
\<close>

record payload =
  body_query :: "string option"
  body_startYear :: "string option"
  body_endYear :: "string option"
  body_publicationType :: "string option"

record request =
  request_json :: "js_error + payload"

text \<open>
  What handling a request does: the response to the client, the calls of \<^verbatim>\<open>fetch\<close>
  and the lines written with \<^verbatim>\<open>console.error\<close>, in order.
\<close>

datatype logged = LString string | LNumber nat | LError js_error

record 'n outcome =
  response :: "'n next_response"
  fetches :: "fetch_call list"
  console :: "logged list list"

text \<open>The \<^verbatim>\<open>catch\<close> block of the route, after the calls made so far.\<close>

definition catch_block :: "fetch_call list \<Rightarrow> js_error \<Rightarrow> 'n outcome" where
  "catch_block calls error =
     \<lparr> response = NextResponse_json [(''error'', Some (JString ''Unexpected server error.''))] 500,
       fetches = calls,
       console = [[LError error]] \<rparr>"

text \<open>
  Lines 79 to 88 of the route: the URL it asks the provider for, once the query has
  passed the check. \<open>finite\<close> is the number that \<^verbatim>\<open>Number.isFinite\<close> has accepted.
\<close>

fun finite :: "number option \<Rightarrow> int option" where
  "finite (Some (Num n)) = Some n"
| "finite (Some NaN) = None"
| "finite (Some Infinity) = None"
| "finite (Some MinusInfinity) = None"
| "finite None = None"

definition apiUrl :: "date \<Rightarrow> payload \<Rightarrow> string" where
  "apiUrl today p =
     (let startYearNumber =
            (if truthy_string (body_startYear p) then map_option parseInt (body_startYear p)
             else None);
          endYearNumber =
            (if truthy_string (body_endYear p) then map_option parseInt (body_endYear p)
             else None);
          sanitizedPublicationType = map_option trim (body_publicationType p)
      in buildQueryURL today
           \<lparr> query = (case body_query p of Some q \<Rightarrow> trim q | None \<Rightarrow> []),
             startYear = (if isFinite startYearNumber then finite startYearNumber else None),
             endYear = (if isFinite endYearNumber then finite endYearNumber else None),
             publicationType =
               (if truthy_string sanitizedPublicationType then sanitizedPublicationType
                else None) \<rparr>)"

definition POST :: "'n env \<Rightarrow> request \<Rightarrow> 'n outcome" where
  "POST env request =
     (case request_json request of
        Inl error \<Rightarrow> catch_block [] error
      | Inr p \<Rightarrow>
          if (case body_query p of None \<Rightarrow> True | Some q \<Rightarrow> q = [] \<or> trim q = []) then
            \<lparr> response = NextResponse_json [(''error'', Some (JString ''Query is required.''))] 400,
              fetches = [],
              console = [] \<rparr>
          else
            (let call = \<lparr> url = apiUrl (now env) p,
                          headers = [(''Accept'', ''application/json'')],
                          revalidate = 60 * 5 \<rparr>
             in case fetch env call of
                  Inl error \<Rightarrow> catch_block [call] error
                | Inr r \<Rightarrow>
                    if ok r then
                      (case response_json r of
                         Inl error \<Rightarrow> catch_block [call] error
                       | Inr data \<Rightarrow>
                           (case get_property data ''data'' of
                              Inl error \<Rightarrow> catch_block [call] error
                            | Inr papers \<Rightarrow>
                                (case get_property data ''total'' of
                                   Inl error \<Rightarrow> catch_block [call] error
                                 | Inr total' \<Rightarrow>
                                     \<lparr> response =
                                         NextResponse_json [(''papers'', papers), (''total'', total')] 200,
                                       fetches = [call],
                                       console = [] \<rparr>)))
                    else
                      (case response_text r of
                         Inl error \<Rightarrow> catch_block [call] error
                       | Inr t \<Rightarrow>
                           \<lparr> response =
                               NextResponse_json
                                 [(''error'', Some (JString ''Failed to retrieve research papers.''))] 502,
                             fetches = [call],
                             console =
                               [[LString ''Semantic Scholar request failed'',
                                 LNumber (response_status r), LString t]] \<rparr>)))"

text \<open>
  Providers to run the route against: one that cannot be reached, one that finds a
  paper, one that is out of service, one that answers with status 200 and an object of
  another shape, and one whose answer of status 503 breaks off before its body is read.
\<close>

definition unreachable :: "fetch_call \<Rightarrow> js_error + int response" where
  "unreachable call = Inl (TypeError ''fetch failed'')"

definition one_paper :: "fetch_call \<Rightarrow> js_error + int response" where
  "one_paper call =
     Inr \<lparr> response_status = 200,
           response_text = Inr ''{\"total\":42,\"offset\":0,\"data\":[{\"title\":\"Aspirin\"}]}'',
           response_json =
             Inr (JObject [(''total'', JNumber 42), (''offset'', JNumber 0),
                           (''data'', JArray [JObject [(''title'', JString ''Aspirin'')]])]) \<rparr>"

definition out_of_service :: "fetch_call \<Rightarrow> js_error + int response" where
  "out_of_service call =
     Inr \<lparr> response_status = 503,
           response_text = Inr ''upstream connect error'',
           response_json = Inl (SyntaxError ''Unexpected token u in JSON at position 0'') \<rparr>"

definition other_shape :: "fetch_call \<Rightarrow> js_error + int response" where
  "other_shape call =
     Inr \<lparr> response_status = 200,
           response_text = Inr ''{\"message\":\"Forbidden\"}'',
           response_json = Inr (JObject [(''message'', JString ''Forbidden'')]) \<rparr>"

definition broken_off :: "fetch_call \<Rightarrow> js_error + int response" where
  "broken_off call =
     Inr \<lparr> response_status = 503,
           response_text = Inl (TypeError ''terminated''),
           response_json = Inl (TypeError ''terminated'') \<rparr>"

section \<open>Reading a built URL back\<close>

lemma percent_decode_literal:
  "c \<noteq> CHR ''%'' \<Longrightarrow> percent_decode (c # cs) = c # percent_decode cs"
  by (cases cs rule: percent_decode.cases) auto

lemma hex_digit_value: "d < 16 \<Longrightarrow> is_hex (hex_digit d) \<and> hex_value (hex_digit d) = d"
  by (auto simp: hex_digit_def is_hex_def hex_value_def Let_def)

lemma of_char_hex_digit:
  "d < 16 \<Longrightarrow> (of_char (hex_digit d) :: nat) = (if d < 10 then 48 + d else 55 + d)"
  by (simp add: hex_digit_def)

lemma hex_digit_plain:
  assumes "d < 16"
  shows "hex_digit d \<noteq> CHR ''+'' \<and> hex_digit d \<noteq> CHR ''&'' \<and> hex_digit d \<noteq> CHR ''=''"
proof -
  have "(of_char (hex_digit d) :: nat) \<noteq> of_char c"
    if "c = CHR ''+'' \<or> c = CHR ''&'' \<or> c = CHR ''=''" for c
    using that assms by (auto simp: of_char_hex_digit)
  then show ?thesis by blast
qed

lemma unreserved_plain:
  "unreserved c \<Longrightarrow> c \<noteq> CHR ''+'' \<and> c \<noteq> CHR ''%'' \<and> c \<noteq> CHR ''&'' \<and> c \<noteq> CHR ''=''"
  by (auto simp: unreserved_def is_alnum_def Let_def)

lemma decode_percent_encode:
  "percent_decode (map (\<lambda>c. if c = CHR ''+'' then CHR '' '' else c) (percent_encode c) @ r)
     = c # percent_decode r"
proof -
  let ?n = "of_char c :: nat"
  have n: "?n div 16 < 16" "?n mod 16 < 16"
    by (simp_all add: less_mult_imp_div_less)
  consider "unreserved c" | "\<not> unreserved c" "c = CHR '' ''" | "\<not> unreserved c" "c \<noteq> CHR '' ''"
    by blast
  then show ?thesis
  proof cases
    case 1
    then show ?thesis
      using unreserved_plain [of c] by (simp add: percent_encode_def percent_decode_literal)
  next
    case 2
    then show ?thesis
      by (simp add: percent_encode_def percent_decode_literal)
  next
    case 3
    have "char_of (16 * (?n div 16) + ?n mod 16) = c"
      by simp
    with 3 n show ?thesis
      using hex_digit_value [of "?n div 16"] hex_digit_value [of "?n mod 16"]
        hex_digit_plain [of "?n div 16"] hex_digit_plain [of "?n mod 16"]
      by (simp add: percent_encode_def)
  qed
qed

lemma form_decode_urlencoded: "form_decode (urlencoded s) = s"
proof -
  have "percent_decode (map (\<lambda>c. if c = CHR ''+'' then CHR '' '' else c) (urlencoded s)) = s"
    by (induction s) (simp_all add: urlencoded_def decode_percent_encode)
  then show ?thesis by (simp add: form_decode_def)
qed

lemma percent_encode_plain:
  "CHR ''&'' \<notin> set (percent_encode c) \<and> CHR ''='' \<notin> set (percent_encode c)"
proof -
  let ?n = "of_char c :: nat"
  have n: "?n div 16 < 16" "?n mod 16 < 16"
    by (simp_all add: less_mult_imp_div_less)
  show ?thesis
    using unreserved_plain [of c] hex_digit_plain [OF n(1)] hex_digit_plain [OF n(2)]
    by (auto simp: percent_encode_def)
qed

lemma urlencoded_plain:
  "CHR ''&'' \<notin> set (urlencoded s) \<and> CHR ''='' \<notin> set (urlencoded s)"
  using percent_encode_plain by (auto simp: urlencoded_def)

lemma split_single: "d \<notin> set a \<Longrightarrow> split d a = [a]"
  by (induction a) auto

lemma split_append: "d \<notin> set a \<Longrightarrow> split d (a @ d # b) = a # split d b"
  by (induction a) auto

lemma parse_pair_encoded:
  "parse_pair (urlencoded name @ ''='' @ urlencoded v) = (name, v)"
proof -
  have "takeWhile (\<lambda>c. c \<noteq> CHR ''='') (urlencoded name @ CHR ''='' # urlencoded v) = urlencoded name"
    using urlencoded_plain [of name] by (auto simp: takeWhile_tail)
  then show ?thesis
    by (simp add: parse_pair_def Let_def form_decode_urlencoded)
qed


lemma pair_nonempty_plain:
  "urlencoded name @ ''='' @ urlencoded v \<noteq> [] \<and>
   CHR ''&'' \<notin> set (urlencoded name @ ''='' @ urlencoded v)"
  using urlencoded_plain [of name] urlencoded_plain [of v] by simp

lemma parse_query_serialize: "parse_query (serialize ps) = ps"
proof -
  let ?enc = "\<lambda>(name, v). urlencoded name @ ''='' @ urlencoded v"
  have enc: "?enc p \<noteq> [] \<and> CHR ''&'' \<notin> set (?enc p) \<and> parse_pair (?enc p) = p" for p
    using pair_nonempty_plain [of "fst p" "snd p"] parse_pair_encoded [of "fst p" "snd p"]
    by (simp add: case_prod_beta)
  have "map parse_pair (filter (\<lambda>piece. piece \<noteq> []) (split (CHR ''&'') (join ''&'' (map ?enc ps)))) = ps"
  proof (induction ps rule: induct_list012)
    case 1
    show ?case by simp
  next
    case (2 p)
    show ?case using enc [of p] by (simp add: split_single)
  next
    case (3 p q ps)
    have "split (CHR ''&'') (?enc p @ CHR ''&'' # join ''&'' (map ?enc (q # ps)))
            = ?enc p # split (CHR ''&'') (join ''&'' (map ?enc (q # ps)))"
      using enc [of p] by (intro split_append) simp
    with 3 enc [of p] show ?case by simp
  qed
  then show ?thesis by (simp add: parse_query_def serialize_def)
qed

lemma new_URL_toString:
  assumes "CHR ''?'' \<notin> set (location u)"
  shows "new_URL (URL_toString u) = u"
proof -
  let ?P = "\<lambda>c. c \<noteq> CHR ''?''"
  from assms have t: "takeWhile ?P (location u) = location u"
    and d: "dropWhile ?P (location u) = []"
    by auto
  show ?thesis
  proof (cases "searchParams u = []")
    case True
    then show ?thesis
      by (simp add: new_URL_def URL_toString_def parse_query_def t d)
  next
    case False
    then show ?thesis
      by (simp add: new_URL_def URL_toString_def takeWhile_tail dropWhile_append3
          parse_query_serialize t d)
  qed
qed

lemma new_URL_endpoint:
  "new_URL SEMANTIC_SCHOLAR_ENDPOINT = \<lparr> location = SEMANTIC_SCHOLAR_ENDPOINT, searchParams = [] \<rparr>"
  by (simp add: new_URL_def SEMANTIC_SCHOLAR_ENDPOINT_def parse_query_def)

lemma toString_15: "toString DEFAULT_LIMIT = ''15''"
  by code_simp


lemma buildQueryURL_params:
  "new_URL (buildQueryURL today f) =
     \<lparr> location = SEMANTIC_SCHOLAR_ENDPOINT,
       searchParams =
         [(''query'', query f), (''limit'', ''15''),
          (''fields'', ''title,abstract,year,authors,venue,url,publicationTypes,journal'')] @
         (if truthy_number (startYear f) \<or> truthy_number (endYear f) then
            if truthy_string (publicationType f) then
              [(''filter'',
                ''year>='' @ toString (case startYear f of Some n \<Rightarrow> n | None \<Rightarrow> 1900) @
                '',year<='' @ toString (case endYear f of Some n \<Rightarrow> n | None \<Rightarrow> getFullYear today) @
                '',publicationTypes:'' @ (case publicationType f of Some t \<Rightarrow> t | None \<Rightarrow> []))]
            else
              [(''filter'',
                ''year>='' @ toString (case startYear f of Some n \<Rightarrow> n | None \<Rightarrow> 1900) @
                '',year<='' @ toString (case endYear f of Some n \<Rightarrow> n | None \<Rightarrow> getFullYear today))]
          else if truthy_string (publicationType f) then
            [(''filter'', ''publicationTypes:'' @ (case publicationType f of Some t \<Rightarrow> t | None \<Rightarrow> []))]
          else []) \<rparr>"
proof -
  have q: "CHR ''?'' \<notin> set SEMANTIC_SCHOLAR_ENDPOINT"
    by (simp add: SEMANTIC_SCHOLAR_ENDPOINT_def)
  show ?thesis
    unfolding buildQueryURL_def Let_def new_URL_endpoint toString_15
    by (cases "publicationType f")
       (simp_all add: searchParams_set_def new_URL_toString q)
qed

lemma urlencoded_names:
  "urlencoded ''query'' = ''query''" "urlencoded ''limit'' = ''limit''"
  "urlencoded ''fields'' = ''fields''" "urlencoded ''15'' = ''15''"
  "urlencoded ''title,abstract,year,authors,venue,url,publicationTypes,journal'' =
     ''title%2Cabstract%2Cyear%2Cauthors%2Cvenue%2Curl%2CpublicationTypes%2Cjournal''"
  by code_simp+

lemma buildQueryURL_text:
  "\<exists>rest. buildQueryURL today f =
     SEMANTIC_SCHOLAR_ENDPOINT @ ''?query='' @ urlencoded (query f) @
     ''&limit=15&fields=title%2Cabstract%2Cyear%2Cauthors%2Cvenue%2Curl%2CpublicationTypes%2Cjournal'' @
     rest"
  unfolding buildQueryURL_def Let_def new_URL_endpoint toString_15
  by (cases "publicationType f")
     (simp_all add: searchParams_set_def URL_toString_def serialize_def urlencoded_names)

lemma buildQueryURL_filter_emitted:
  "((truthy_number (startYear f) \<or> truthy_number (endYear f)) \<and>
      publicationType f = Some t \<and> t \<noteq> [] \<longrightarrow>
      searchParams_getAll ''filter'' (new_URL (buildQueryURL today f)) =
        [''year>='' @ toString (case startYear f of Some n \<Rightarrow> n | None \<Rightarrow> 1900) @
         '',year<='' @ toString (case endYear f of Some n \<Rightarrow> n | None \<Rightarrow> getFullYear today) @
         '',publicationTypes:'' @ t])
   \<and> (\<not> truthy_number (startYear f) \<and> \<not> truthy_number (endYear f) \<and>
        \<not> truthy_string (publicationType f) \<longrightarrow>
      searchParams_getAll ''filter'' (new_URL (buildQueryURL today f)) = [])"
  by (simp add: buildQueryURL_params searchParams_getAll_def)

section \<open>Trimming and parsing\<close>

lemma trimStart_Nil: "trimStart [] = []"
  by (simp add: trimStart.simps leading_ws_def whitespace_def)

lemma trimEnd_Nil: "trimEnd [] = []"
  by (simp add: trimEnd.simps trailing_ws_def whitespace_def)

lemma trim_Nil: "trim [] = []"
  by (simp add: trim_def trimStart_Nil trimEnd_Nil)

lemma whitespace_length:
  assumes "w \<in> set whitespace"
  shows "w \<noteq> [] \<and>
    length w = (if hd w = CHR 0xC2 then 2
                else if hd w \<in> {CHR 0xE1, CHR 0xE2, CHR 0xE3, CHR 0xEF} then 3 else 1)"
  using assms by (simp add: whitespace_def) (elim disjE; simp)

lemma whitespace_prefix_free:
  assumes w: "w \<in> set whitespace" and v: "v \<in> set whitespace"
    and p: "take (length v) (w @ r) = v"
  shows "v = w"
proof -
  from whitespace_length [OF w] whitespace_length [OF v]
  have ne: "w \<noteq> []" "v \<noteq> []"
    and len: "hd v = hd w \<Longrightarrow> length v = length w"
    by simp_all
  from ne p have "hd v = hd w"
    by (metis append_Cons hd_take length_greater_0_conv list.sel(1) neq_Nil_conv)
  with len p show ?thesis by simp
qed

lemma leading_ws_append:
  assumes "w \<in> set whitespace"
  shows "leading_ws (w @ r) = Some w"
proof (cases "leading_ws (w @ r)")
  case None
  with assms show ?thesis by (auto simp: leading_ws_def find_None_iff)
next
  case (Some v)
  then have "v \<in> set whitespace" "take (length v) (w @ r) = v"
    by (auto simp: leading_ws_def find_Some_iff)
  with assms Some show ?thesis by (simp add: whitespace_prefix_free)
qed

lemma trimStart_whitespace:
  "set ws \<subseteq> set whitespace \<Longrightarrow> trimStart (concat ws @ r) = trimStart r"
proof (induction ws)
  case Nil
  show ?case by simp
next
  case (Cons w ws)
  then have "leading_ws (w @ concat ws @ r) = Some w"
    by (simp add: leading_ws_append)
  with Cons show ?case by (simp add: trimStart.simps [of "w @ concat ws @ r"])
qed

lemma trimStart_prefix:
  "\<exists>ws. set ws \<subseteq> set whitespace \<and> s = concat ws @ trimStart s"
proof (induction s rule: trimStart.induct)
  case (1 s)
  show ?case
  proof (cases "leading_ws s")
    case None
    then have "s = concat [] @ trimStart s" by (simp add: trimStart.simps [of s])
    then show ?thesis by (metis empty_subsetI list.set(1))
  next
    case (Some w)
    then have w: "w \<in> set whitespace" and p: "take (length w) s = w"
      by (auto simp: leading_ws_def find_Some_iff)
    from 1 [OF Some] obtain ws where
      ws: "set ws \<subseteq> set whitespace" "drop (length w) s = concat ws @ trimStart (drop (length w) s)"
      by blast
    have "s = w @ drop (length w) s"
      using p by (metis append_take_drop_id)
    with ws(2) Some have "s = concat (w # ws) @ trimStart s"
      by (simp add: trimStart.simps [of s])
    with w ws(1) show ?thesis
      by (metis insert_subset list.set(2))
  qed
qed

lemma trimEnd_suffix:
  "\<exists>ws. set ws \<subseteq> set whitespace \<and> s = trimEnd s @ concat ws"
proof (induction s rule: trimEnd.induct)
  case (1 s)
  show ?case
  proof (cases "trailing_ws s")
    case None
    then have "s = trimEnd s @ concat []" by (simp add: trimEnd.simps [of s])
    then show ?thesis by (metis empty_subsetI list.set(1))
  next
    case (Some w)
    then have w: "w \<in> set whitespace" and p: "drop (length s - length w) s = w"
      by (auto simp: trailing_ws_def find_Some_iff)
    let ?t = "take (length s - length w) s"
    from 1 [OF Some] obtain ws where
      ws: "set ws \<subseteq> set whitespace" "?t = trimEnd ?t @ concat ws"
      by blast
    have "trimEnd s = trimEnd ?t"
      using Some by (simp add: trimEnd.simps [of s])
    then have "trimEnd s @ concat (ws @ [w]) = (trimEnd ?t @ concat ws) @ w"
      by simp
    also have "\<dots> = ?t @ w"
      using ws(2) by simp
    also have "\<dots> = s"
      using p by (metis append_take_drop_id)
    finally have "s = trimEnd s @ concat (ws @ [w])"
      by simp
    moreover from w ws(1) have "set (ws @ [w]) \<subseteq> set whitespace" by simp
    ultimately show ?thesis by blast
  qed
qed

lemma trim_whitespace_iff:
  "trim s = [] \<longleftrightarrow> (\<exists>ws. set ws \<subseteq> set whitespace \<and> s = concat ws)"
proof
  assume e: "trim s = []"
  from trimStart_prefix [of s] obtain us where
    us: "set us \<subseteq> set whitespace" "s = concat us @ trimStart s" by blast
  from trimEnd_suffix [of "trimStart s"] e obtain vs where
    vs: "set vs \<subseteq> set whitespace" "trimStart s = concat vs" by (auto simp: trim_def)
  from us vs have "set (us @ vs) \<subseteq> set whitespace" "s = concat (us @ vs)" by simp_all
  then show "\<exists>ws. set ws \<subseteq> set whitespace \<and> s = concat ws" by blast
next
  assume "\<exists>ws. set ws \<subseteq> set whitespace \<and> s = concat ws"
  then obtain ws where "set ws \<subseteq> set whitespace" "s = concat ws" by blast
  then have "trimStart s = trimStart []"
    using trimStart_whitespace [of ws "[]"] by simp
  then show "trim s = []"
    by (simp add: trim_def trimStart_Nil trimEnd_Nil)
qed

lemma whitespace_no_digit:
  assumes "w \<in> set whitespace"
  shows "w \<noteq> [] \<and> \<not> is_digit (hd w)"
  using assms by (simp add: whitespace_def) (elim disjE; simp add: is_digit_def)

lemma leading_ws_digit:
  assumes "is_digit c"
  shows "leading_ws (c # s) = None"
proof (cases "leading_ws (c # s)")
  case None
  then show ?thesis .
next
  case (Some w)
  then have w: "w \<in> set whitespace" and p: "take (length w) (c # s) = w"
    by (auto simp: leading_ws_def find_Some_iff)
  from whitespace_no_digit [OF w] p have "hd w = c"
    by (cases w) auto
  with whitespace_no_digit [OF w] assms show ?thesis by simp
qed

lemma parseInt_prefix:
  assumes "ds \<noteq> []" and "list_all is_digit ds" and "rest = [] \<or> \<not> is_digit (hd rest)"
    and "digits_value ds < 9007199254740992"
  shows "parseInt (ds @ rest) = Num (digits_value ds)"
proof -
  from assms(1) obtain d ds' where ds: "ds = d # ds'" by (cases ds) auto
  with assms(2) have d: "is_digit d" by simp
  then have sign: "d \<noteq> CHR ''+''" "d \<noteq> CHR ''-''"
    by (auto simp: is_digit_def)
  have t: "trimStart (ds @ rest) = ds @ rest"
    using d ds by (simp add: trimStart.simps [of "d # ds' @ rest"] leading_ws_digit)
  have "takeWhile is_digit rest = []"
    using assms(3) by (cases rest) auto
  with assms(2) have z: "takeWhile is_digit (ds @ rest) = ds"
    by (simp add: takeWhile_append2 list_all_iff)
  have r: "round_double (digits_value (d # ds')) = Some (digits_value (d # ds'))"
    using assms(4) by (simp add: round_double_def ds)
  have "parseInt (d # ds' @ rest) = Num (digits_value (d # ds'))"
    using sign z t r by (simp add: parseInt_def Let_def ds)
  then show ?thesis by (simp add: ds)
qed

lemma parseInt_rounds: "parseInt ''9007199254740993'' = Num 9007199254740992"
  by code_simp

lemma parseInt_overflows: "parseInt (replicate 310 CHR ''9'') = Infinity"
  by code_simp

lemma toString_exponent:
  "toString 999999999999999999999 = ''1e+21'' \<and>
   toString 123456789012345678901 = ''123456789012345680000''"
  by code_simp

lemma apiUrl_infinite_startYear:
  assumes "parseInt s = Infinity \<or> parseInt s = MinusInfinity"
  shows "apiUrl today (p\<lparr> body_startYear := Some s \<rparr>) =
         apiUrl today (p\<lparr> body_startYear := None \<rparr>)"
  using assms by (auto simp: apiUrl_def Let_def)

section \<open>The route, path by path\<close>

lemma POST_rejected:
  assumes "request_json req = Inr p"
    and "body_query p = None \<or> (\<exists>q. body_query p = Some q \<and> trim q = [])"
  shows "POST env req =
    \<lparr> response = \<lparr> http_status = 400, body = JObject [(''error'', JString ''Query is required.'')] \<rparr>,
      fetches = [], console = [] \<rparr>"
  using assms by (auto simp: POST_def NextResponse_json_def)

lemma POST_accepted:
  assumes "request_json req = Inr p" and "body_query p = Some q" and "trim q \<noteq> []"
  shows "POST env req =
    (let call = \<lparr> url = apiUrl (now env) p, headers = [(''Accept'', ''application/json'')],
                   revalidate = 300 \<rparr>
     in case fetch env call of
          Inl error \<Rightarrow> catch_block [call] error
        | Inr r \<Rightarrow>
            if ok r then
              (case response_json r of
                 Inl error \<Rightarrow> catch_block [call] error
               | Inr data \<Rightarrow>
                   (case get_property data ''data'' of
                      Inl error \<Rightarrow> catch_block [call] error
                    | Inr papers \<Rightarrow>
                        (case get_property data ''total'' of
                           Inl error \<Rightarrow> catch_block [call] error
                         | Inr total' \<Rightarrow>
                             \<lparr> response =
                                 NextResponse_json [(''papers'', papers), (''total'', total')] 200,
                               fetches = [call],
                               console = [] \<rparr>)))
            else
              (case response_text r of
                 Inl error \<Rightarrow> catch_block [call] error
               | Inr t \<Rightarrow>
                   \<lparr> response =
                       NextResponse_json
                         [(''error'', Some (JString ''Failed to retrieve research papers.''))] 502,
                     fetches = [call],
                     console =
                       [[LString ''Semantic Scholar request failed'',
                         LNumber (response_status r), LString t]] \<rparr>))"
proof -
  from assms(3) have "q \<noteq> []" using trim_Nil by auto
  with assms show ?thesis by (simp add: POST_def)
qed

lemma POST_fetches:
  "fetches (POST env req) = [] \<or>
   fetches (POST env req) =
     [\<lparr> url = apiUrl (now env) (case request_json req of Inr p \<Rightarrow> p),
        headers = [(''Accept'', ''application/json'')], revalidate = 300 \<rparr>]"
  by (auto simp: POST_def catch_block_def Let_def split: sum.splits option.splits)


lemma POST_called:
  assumes "fetches (POST env req) = [c]"
  shows "\<exists>p q. request_json req = Inr p \<and> body_query p = Some q \<and> trim q \<noteq> [] \<and>
           c = \<lparr> url = apiUrl (now env) p, headers = [(''Accept'', ''application/json'')],
                 revalidate = 300 \<rparr>"
  using assms
  by (auto simp: POST_def catch_block_def Let_def split: sum.splits option.splits if_splits)

lemma POST_startYear_bound:
  assumes "request_json req = Inr p" and "body_query p = Some q" and "trim q \<noteq> []"
    and "body_startYear p = Some (ds @ rest)"
    and "ds \<noteq> []" and "list_all is_digit ds" and "rest = [] \<or> \<not> is_digit (hd rest)"
    and "digits_value ds \<noteq> 0" and "digits_value ds < 9007199254740992"
  shows "\<exists>c tail. fetches (POST env req) = [c] \<and>
           searchParams_getAll ''filter'' (new_URL (url c)) =
             [''year>='' @ toString (digits_value ds) @ '',year<='' @ tail]"
proof -
  let ?c = "\<lparr> url = apiUrl (now env) p, headers = [(''Accept'', ''application/json'')],
              revalidate = 300 \<rparr>"
  have "fetches (POST env req) = [?c]"
    using POST_fetches [of env req] assms(1-3)
    by (auto simp: POST_accepted Let_def catch_block_def split: sum.splits if_splits)
  moreover have "\<exists>tail. searchParams_getAll ''filter'' (new_URL (url ?c)) =
      [''year>='' @ toString (digits_value ds) @ '',year<='' @ tail]"
    using assms(4,5,8) parseInt_prefix [OF assms(5-7) assms(9)]
    by (simp add: apiUrl_def Let_def buildQueryURL_params searchParams_getAll_def)
  ultimately show ?thesis by blast
qed

lemma POST_shape_unchecked:
  assumes "fetches (POST env req) = [c]" and "fetch env c = Inr r" and "ok r"
    and "response_json r = Inr d" and "d \<noteq> JNull"
  shows "http_status (response (POST env req)) = 200 \<and> console (POST env req) = []"
proof -
  from POST_called [OF assms(1)] obtain p q where
    "request_json req = Inr p" "body_query p = Some q" "trim q \<noteq> []"
    and "c = \<lparr> url = apiUrl (now env) p, headers = [(''Accept'', ''application/json'')],
                 revalidate = 300 \<rparr>"
    by blast
  moreover from assms(5) obtain x y where
    "get_property d ''data'' = Inr x" "get_property d ''total'' = Inr y"
    by (cases d) auto
  ultimately show ?thesis
    using assms(2-4) by (simp add: POST_accepted Let_def NextResponse_json_def)
qed

section \<open>The claims\<close>

text \<open>
  C2. A request whose \<^verbatim>\<open>query\<close> is absent, or is made of white space only (the empty
  string is), is answered with status 400 and the body \<^verbatim>\<open>{error: "Query is required."}\<close>,
  and the provider is not called: the list of outbound calls is empty.
\<close>

theorem POST_query_required:
  assumes "request_json req = Inr p"
    and "body_query p = None \<or>
         (\<exists>ws. set ws \<subseteq> set whitespace \<and> body_query p = Some (concat ws))"
  shows "response (POST env req) =
           \<lparr> http_status = 400, body = JObject [(''error'', JString ''Query is required.'')] \<rparr>
         \<and> fetches (POST env req) = []"
proof -
  from assms(2) have "body_query p = None \<or> (\<exists>q. body_query p = Some q \<and> trim q = [])"
    using trim_whitespace_iff by blast
  from POST_rejected [OF assms(1) this, of env] show ?thesis by simp
qed

theorem POST_query_required_witness:
  "set [[CHR '' ''], [CHR 0x09], [CHR 0xC2, CHR 0xA0]] \<subseteq> set whitespace \<and>
   response (POST \<lparr> now = \<lparr> getTime = 1793577600000, getFullYear = 2026 \<rparr>, fetch = one_paper \<rparr>
      \<lparr> request_json = Inr \<lparr> body_query = Some [CHR '' '', CHR 0x09, CHR 0xC2, CHR 0xA0],
          body_startYear = Some ''2010'', body_endYear = None,
          body_publicationType = None \<rparr> \<rparr>) =
     \<lparr> http_status = 400, body = JObject [(''error'', JString ''Query is required.'')] \<rparr> \<and>
   fetches (POST \<lparr> now = \<lparr> getTime = 1793577600000, getFullYear = 2026 \<rparr>, fetch = one_paper \<rparr>
      \<lparr> request_json = Inr \<lparr> body_query = Some [CHR '' '', CHR 0x09, CHR 0xC2, CHR 0xA0],
          body_startYear = Some ''2010'', body_endYear = None,
          body_publicationType = None \<rparr> \<rparr>) = []"
proof -
  let ?ws = "[[CHR '' ''], [CHR 0x09], [CHR 0xC2, CHR 0xA0]]"
  let ?p = "\<lparr> body_query = Some [CHR '' '', CHR 0x09, CHR 0xC2, CHR 0xA0],
          body_startYear = Some ''2010'', body_endYear = None,
          body_publicationType = None \<rparr>"
  have blank: "set ?ws \<subseteq> set whitespace"
    by (simp add: whitespace_def)
  then have "set ?ws \<subseteq> set whitespace \<and> body_query ?p = Some (concat ?ws)"
    by simp
  then have h: "body_query ?p = None \<or>
      (\<exists>ws. set ws \<subseteq> set whitespace \<and> body_query ?p = Some (concat ws))"
    by blast
  have r: "request_json \<lparr> request_json = Inr ?p \<rparr> = Inr ?p"
    by simp
  from blank POST_query_required [OF r h] show ?thesis
    by blast
qed

text \<open>
  C3. When the provider answers the route's call with a success status and a body that
  has the members \<^verbatim>\<open>data\<close> and \<^verbatim>\<open>total\<close>, the route answers with status 200 and the body
  \<^verbatim>\<open>{papers, total}\<close>, where \<^verbatim>\<open>papers\<close> is the value of \<^verbatim>\<open>data\<close> as it came and \<^verbatim>\<open>total\<close>
  the value of \<^verbatim>\<open>total\<close>.
\<close>

theorem POST_relays_success:
  assumes "fetches (POST env req) = [c]" and "fetch env c = Inr r" and "ok r"
    and "response_json r = Inr d"
    and "get_property d ''data'' = Inr (Some ds)" and "get_property d ''total'' = Inr (Some t)"
  shows "response (POST env req) =
           \<lparr> http_status = 200, body = JObject [(''papers'', ds), (''total'', t)] \<rparr>"
proof -
  from POST_called [OF assms(1)] obtain p q where
    "request_json req = Inr p" "body_query p = Some q" "trim q \<noteq> []"
    and c: "c = \<lparr> url = apiUrl (now env) p, headers = [(''Accept'', ''application/json'')],
                    revalidate = 300 \<rparr>"
    by blast
  then have "POST env req =
      \<lparr> response = NextResponse_json [(''papers'', Some ds), (''total'', Some t)] 200,
        fetches = [c], console = [] \<rparr>"
    using assms(2-) by (simp add: POST_accepted Let_def)
  then show ?thesis by (simp add: NextResponse_json_def)
qed

theorem POST_relays_success_witness:
  "response (POST \<lparr> now = \<lparr> getTime = 1793577600000, getFullYear = 2026 \<rparr>, fetch = one_paper \<rparr>
      \<lparr> request_json = Inr \<lparr> body_query = Some ''aspirin'',
          body_startYear = None, body_endYear = None,
          body_publicationType = None \<rparr> \<rparr>) =
     \<lparr> http_status = 200,
       body = JObject [(''papers'', JArray [JObject [(''title'', JString ''Aspirin'')]]),
                       (''total'', JNumber 42)] \<rparr>"
proof -
  let ?env = "\<lparr> now = \<lparr> getTime = 1793577600000, getFullYear = 2026 \<rparr>, fetch = one_paper \<rparr>"
  let ?req = "\<lparr> request_json = Inr \<lparr> body_query = Some ''aspirin'',
          body_startYear = None, body_endYear = None,
          body_publicationType = None \<rparr> \<rparr>"
  let ?c = "\<lparr> url = ''https://api.semanticscholar.org/graph/v1/paper/search?query=aspirin&limit=15&fields=title%2Cabstract%2Cyear%2Cauthors%2Cvenue%2Curl%2CpublicationTypes%2Cjournal'',
              headers = [(''Accept'', ''application/json'')], revalidate = 300 \<rparr>"
  let ?d = "JObject [(''total'', JNumber 42), (''offset'', JNumber 0),
                     (''data'', JArray [JObject [(''title'', JString ''Aspirin'')]])] :: int json"
  let ?r = "\<lparr> response_status = 200,
           response_text = Inr ''{\"total\":42,\"offset\":0,\"data\":[{\"title\":\"Aspirin\"}]}'',
           response_json = Inr ?d \<rparr>"
  have 1: "fetches (POST ?env ?req) = [?c]"
    by code_simp
  have 2: "fetch ?env ?c = Inr ?r"
    by (simp add: one_paper_def)
  have 3: "ok ?r"
    by (simp add: ok_def)
  have 4: "response_json ?r = Inr ?d"
    by simp
  have 5: "get_property ?d ''data'' = Inr (Some (JArray [JObject [(''title'', JString ''Aspirin'')]]))"
    by simp
  have 6: "get_property ?d ''total'' = Inr (Some (JNumber 42))"
    by simp
  show ?thesis
    by (rule POST_relays_success [OF 1 2 3 4 5 6])
qed

text \<open>
  C4. When the provider answers the route's call with a status outside 200..299 (503, for
  one), whatever the text of its body, the route answers with status 502 and the body
  \<^verbatim>\<open>{error: "Failed to retrieve research papers."}\<close>. The provider's status and text
  go to the server's log; the response, being this constant, holds neither.
\<close>

theorem POST_provider_failure:
  assumes "fetches (POST env req) = [c]" and "fetch env c = Inr r" and "\<not> ok r"
    and "response_text r = Inr t"
  shows "response (POST env req) =
           \<lparr> http_status = 502,
             body = JObject [(''error'', JString ''Failed to retrieve research papers.'')] \<rparr>
         \<and> console (POST env req) =
           [[LString ''Semantic Scholar request failed'', LNumber (response_status r), LString t]]"
proof -
  from POST_called [OF assms(1)] obtain p q where
    "request_json req = Inr p" "body_query p = Some q" "trim q \<noteq> []"
    and c: "c = \<lparr> url = apiUrl (now env) p, headers = [(''Accept'', ''application/json'')],
                    revalidate = 300 \<rparr>"
    by blast
  then show ?thesis
    using assms(2-) by (simp add: POST_accepted Let_def NextResponse_json_def)
qed

theorem POST_provider_failure_witness:
  "response (POST \<lparr> now = \<lparr> getTime = 1793577600000, getFullYear = 2026 \<rparr>, fetch = out_of_service \<rparr>
      \<lparr> request_json = Inr \<lparr> body_query = Some ''aspirin'',
          body_startYear = None, body_endYear = None,
          body_publicationType = None \<rparr> \<rparr>) =
     \<lparr> http_status = 502,
       body = JObject [(''error'', JString ''Failed to retrieve research papers.'')] \<rparr> \<and>
   console (POST \<lparr> now = \<lparr> getTime = 1793577600000, getFullYear = 2026 \<rparr>, fetch = out_of_service \<rparr>
      \<lparr> request_json = Inr \<lparr> body_query = Some ''aspirin'',
          body_startYear = None, body_endYear = None,
          body_publicationType = None \<rparr> \<rparr>) =
     [[LString ''Semantic Scholar request failed'', LNumber 503, LString ''upstream connect error'']]"
proof -
  let ?env = "\<lparr> now = \<lparr> getTime = 1793577600000, getFullYear = 2026 \<rparr>, fetch = out_of_service \<rparr>"
  let ?req = "\<lparr> request_json = Inr \<lparr> body_query = Some ''aspirin'',
          body_startYear = None, body_endYear = None,
          body_publicationType = None \<rparr> \<rparr>"
  let ?c = "\<lparr> url = ''https://api.semanticscholar.org/graph/v1/paper/search?query=aspirin&limit=15&fields=title%2Cabstract%2Cyear%2Cauthors%2Cvenue%2Curl%2CpublicationTypes%2Cjournal'',
              headers = [(''Accept'', ''application/json'')], revalidate = 300 \<rparr>"
  let ?r = "\<lparr> response_status = 503,
           response_text = Inr ''upstream connect error'',
           response_json = Inl (SyntaxError ''Unexpected token u in JSON at position 0'') \<rparr>
           :: int response"
  have 1: "fetches (POST ?env ?req) = [?c]"
    by code_simp
  have 2: "fetch ?env ?c = Inr ?r"
    by (simp add: out_of_service_def)
  have 3: "\<not> ok ?r"
    by (simp add: ok_def)
  have 4: "response_text ?r = Inr ''upstream connect error''"
    by simp
  show ?thesis
    using POST_provider_failure [OF 1 2 3 4] by simp
qed

text \<open>
  C5, as stated, fails: a provider body that parses but has neither \<^verbatim>\<open>data\<close> nor
  \<^verbatim>\<open>total\<close> is no error to the route, which checks no shape. It answers with status 200
  and an object from which the two undefined members are left out.
\<close>

theorem POST_other_shape_counterexample:
  "response (POST \<lparr> now = \<lparr> getTime = 1793577600000, getFullYear = 2026 \<rparr>, fetch = other_shape \<rparr>
      \<lparr> request_json = Inr \<lparr> body_query = Some ''aspirin'',
          body_startYear = None, body_endYear = None,
          body_publicationType = None \<rparr> \<rparr>) =
     \<lparr> http_status = 200, body = JObject [] \<rparr> \<and>
   response (POST \<lparr> now = \<lparr> getTime = 1793577600000, getFullYear = 2026 \<rparr>, fetch = other_shape \<rparr>
      \<lparr> request_json = Inr \<lparr> body_query = Some ''aspirin'',
          body_startYear = None, body_endYear = None,
          body_publicationType = None \<rparr> \<rparr>) \<noteq>
     \<lparr> http_status = 500, body = JObject [(''error'', JString ''Unexpected server error.'')] \<rparr>"
  by code_simp

text \<open>
  C5, amended. Whatever is thrown while the request is handled is caught and answered
  with status 500 and the body \<^verbatim>\<open>{error: "Unexpected server error."}\<close>, and the error goes
  to the server's log, not into the response: that is so when the request body fails to
  parse, when the outbound call fails, when the body of a failure response cannot be
  read, when the body of a success response fails to parse, and when that body is
  \<^verbatim>\<open>null\<close>, of which no member can be read.
\<close>

theorem POST_unexpected_error:
  fixes env :: "'n env"
  assumes "request_json req = Inl e
     \<or> (\<exists>c. fetches (POST env req) = [c] \<and> fetch env c = Inl e)
     \<or> (\<exists>c r. fetches (POST env req) = [c] \<and> fetch env c = Inr r \<and> \<not> ok r \<and>
            response_text r = Inl e)
     \<or> (\<exists>c r. fetches (POST env req) = [c] \<and> fetch env c = Inr r \<and> ok r \<and>
            response_json r = Inl e)
     \<or> (\<exists>c r. fetches (POST env req) = [c] \<and> fetch env c = Inr r \<and> ok r \<and>
            response_json r = Inr JNull \<and> get_property (JNull :: 'n json) ''data'' = Inl e)"
  shows "response (POST env req) =
           \<lparr> http_status = 500, body = JObject [(''error'', JString ''Unexpected server error.'')] \<rparr>
         \<and> console (POST env req) = [[LError e]]"
proof -
  have caught: "response (catch_block calls e :: 'n outcome) =
           \<lparr> http_status = 500, body = JObject [(''error'', JString ''Unexpected server error.'')] \<rparr>
         \<and> console (catch_block calls e :: 'n outcome) = [[LError e]]" for calls
    by (simp add: catch_block_def NextResponse_json_def)
  have "\<exists>calls. POST env req = catch_block calls e"
    using assms
  proof (elim disjE exE conjE)
    assume "request_json req = Inl e"
    then show ?thesis by (auto simp: POST_def)
  next
    fix c assume f: "fetches (POST env req) = [c]" and "fetch env c = Inl e"
    with POST_called [OF f] show ?thesis
      by (auto simp: POST_accepted Let_def)
  next
    fix c r assume f: "fetches (POST env req) = [c]" and "fetch env c = Inr r" "\<not> ok r"
      "response_text r = Inl e"
    with POST_called [OF f] show ?thesis
      by (auto simp: POST_accepted Let_def)
  next
    fix c r assume f: "fetches (POST env req) = [c]" and "fetch env c = Inr r" "ok r"
      "response_json r = Inl e"
    with POST_called [OF f] show ?thesis
      by (auto simp: POST_accepted Let_def)
  next
    fix c r assume f: "fetches (POST env req) = [c]" and "fetch env c = Inr r" "ok r"
      "response_json r = Inr JNull" "get_property (JNull :: 'n json) ''data'' = Inl e"
    with POST_called [OF f] show ?thesis
      by (auto simp: POST_accepted Let_def)
  qed
  with caught show ?thesis by auto
qed

theorem POST_unexpected_error_witness:
  "response (POST \<lparr> now = \<lparr> getTime = 1793577600000, getFullYear = 2026 \<rparr>, fetch = one_paper \<rparr>
      \<lparr> request_json = Inl (SyntaxError ''Unexpected end of JSON input'') \<rparr>) =
     \<lparr> http_status = 500, body = JObject [(''error'', JString ''Unexpected server error.'')] \<rparr> \<and>
   console (POST \<lparr> now = \<lparr> getTime = 1793577600000, getFullYear = 2026 \<rparr>, fetch = one_paper \<rparr>
      \<lparr> request_json = Inl (SyntaxError ''Unexpected end of JSON input'') \<rparr>) =
     [[LError (SyntaxError ''Unexpected end of JSON input'')]] \<and>
   response (POST \<lparr> now = \<lparr> getTime = 1793577600000, getFullYear = 2026 \<rparr>, fetch = unreachable \<rparr>
      \<lparr> request_json = Inr \<lparr> body_query = Some ''aspirin'',
          body_startYear = None, body_endYear = None,
          body_publicationType = None \<rparr> \<rparr>) =
     \<lparr> http_status = 500, body = JObject [(''error'', JString ''Unexpected server error.'')] \<rparr> \<and>
   console (POST \<lparr> now = \<lparr> getTime = 1793577600000, getFullYear = 2026 \<rparr>, fetch = unreachable \<rparr>
      \<lparr> request_json = Inr \<lparr> body_query = Some ''aspirin'',
          body_startYear = None, body_endYear = None,
          body_publicationType = None \<rparr> \<rparr>) =
     [[LError (TypeError ''fetch failed'')]] \<and>
   response (POST \<lparr> now = \<lparr> getTime = 1793577600000, getFullYear = 2026 \<rparr>, fetch = broken_off \<rparr>
      \<lparr> request_json = Inr \<lparr> body_query = Some ''aspirin'',
          body_startYear = None, body_endYear = None,
          body_publicationType = None \<rparr> \<rparr>) =
     \<lparr> http_status = 500, body = JObject [(''error'', JString ''Unexpected server error.'')] \<rparr> \<and>
   console (POST \<lparr> now = \<lparr> getTime = 1793577600000, getFullYear = 2026 \<rparr>, fetch = broken_off \<rparr>
      \<lparr> request_json = Inr \<lparr> body_query = Some ''aspirin'',
          body_startYear = None, body_endYear = None,
          body_publicationType = None \<rparr> \<rparr>) =
     [[LError (TypeError ''terminated'')]]"
proof -
  let ?today = "\<lparr> getTime = 1793577600000, getFullYear = 2026 \<rparr>"
  let ?req = "\<lparr> request_json = Inr \<lparr> body_query = Some ''aspirin'',
          body_startYear = None, body_endYear = None,
          body_publicationType = None \<rparr> \<rparr>"
  let ?c = "\<lparr> url = ''https://api.semanticscholar.org/graph/v1/paper/search?query=aspirin&limit=15&fields=title%2Cabstract%2Cyear%2Cauthors%2Cvenue%2Curl%2CpublicationTypes%2Cjournal'',
              headers = [(''Accept'', ''application/json'')], revalidate = 300 \<rparr>"
  let ?r = "\<lparr> response_status = 503,
           response_text = Inl (TypeError ''terminated''),
           response_json = Inl (TypeError ''terminated'') \<rparr> :: int response"
  have "request_json \<lparr> request_json = Inl (SyntaxError ''Unexpected end of JSON input'') \<rparr> =
      Inl (SyntaxError ''Unexpected end of JSON input'')"
    by simp
  then have a: "response (POST \<lparr> now = ?today, fetch = one_paper \<rparr>
      \<lparr> request_json = Inl (SyntaxError ''Unexpected end of JSON input'') \<rparr>) =
     \<lparr> http_status = 500, body = JObject [(''error'', JString ''Unexpected server error.'')] \<rparr> \<and>
   console (POST \<lparr> now = ?today, fetch = one_paper \<rparr>
      \<lparr> request_json = Inl (SyntaxError ''Unexpected end of JSON input'') \<rparr>) =
     [[LError (SyntaxError ''Unexpected end of JSON input'')]]"
    by (intro POST_unexpected_error) blast
  have "fetches (POST \<lparr> now = ?today, fetch = unreachable \<rparr> ?req) = [?c]"
    by code_simp
  moreover have "fetch \<lparr> now = ?today, fetch = unreachable \<rparr> ?c = Inl (TypeError ''fetch failed'')"
    by (simp add: unreachable_def)
  ultimately have
    "\<exists>c. fetches (POST \<lparr> now = ?today, fetch = unreachable \<rparr> ?req) = [c] \<and>
         fetch \<lparr> now = ?today, fetch = unreachable \<rparr> c = Inl (TypeError ''fetch failed'')"
    by blast
  then have b: "response (POST \<lparr> now = ?today, fetch = unreachable \<rparr> ?req) =
      \<lparr> http_status = 500, body = JObject [(''error'', JString ''Unexpected server error.'')] \<rparr> \<and>
      console (POST \<lparr> now = ?today, fetch = unreachable \<rparr> ?req) =
        [[LError (TypeError ''fetch failed'')]]"
    by (intro POST_unexpected_error) blast
  have "fetches (POST \<lparr> now = ?today, fetch = broken_off \<rparr> ?req) = [?c]"
    by code_simp
  moreover have "fetch \<lparr> now = ?today, fetch = broken_off \<rparr> ?c = Inr ?r"
    by (simp add: broken_off_def)
  moreover have "\<not> ok ?r"
    by (simp add: ok_def)
  moreover have "response_text ?r = Inl (TypeError ''terminated'')"
    by simp
  ultimately have
    "\<exists>c r. fetches (POST \<lparr> now = ?today, fetch = broken_off \<rparr> ?req) = [c] \<and>
         fetch \<lparr> now = ?today, fetch = broken_off \<rparr> c = Inr r \<and> \<not> ok r \<and>
         response_text r = Inl (TypeError ''terminated'')"
    by blast
  then have c: "response (POST \<lparr> now = ?today, fetch = broken_off \<rparr> ?req) =
      \<lparr> http_status = 500, body = JObject [(''error'', JString ''Unexpected server error.'')] \<rparr> \<and>
      console (POST \<lparr> now = ?today, fetch = broken_off \<rparr> ?req) =
        [[LError (TypeError ''terminated'')]]"
    by (intro POST_unexpected_error) blast
  from a b c show ?thesis by blast
qed

text \<open>
  C6. With a year bound and a publication type both given, the one \<^verbatim>\<open>filter\<close> parameter
  of the built URL is to be \<^verbatim>\<open>year>=<start>,year<=<end>,publicationTypes:<type>\<close>, the year
  clauses first; with neither given the URL is to have no \<^verbatim>\<open>filter\<close> parameter. For a
  start year of 0 the code does not do so: with the type \<^verbatim>\<open>Review\<close> and no end year the
  filter is \<^verbatim>\<open>publicationTypes:Review\<close> alone, the year clauses missing, although with an
  end year beside it the same start year is taken as present and joined as the claim says.
\<close>

theorem buildQueryURL_filter_year_zero:
  "searchParams_getAll ''filter''
     (new_URL (buildQueryURL today
        \<lparr> query = q, startYear = Some 0, endYear = None,
          publicationType = Some ''Review'' \<rparr>)) =
     [''publicationTypes:Review''] \<and>
   searchParams_getAll ''filter''
     (new_URL (buildQueryURL today
        \<lparr> query = q, startYear = Some 0, endYear = Some 2015,
          publicationType = Some ''Review'' \<rparr>)) =
     [''year>=0,year<=2015,publicationTypes:Review'']"
proof -
  have n: "toString 0 = ''0''" "toString 2015 = ''2015''"
    by code_simp+
  show ?thesis
    by (simp add: buildQueryURL_params searchParams_getAll_def n)
qed

text \<open>
  C8. For a query that is not made of white space only (it has a character that is not
  white space), the route makes one call, and the \<^verbatim>\<open>query\<close> parameter read back from the
  URL of that call, decoded, is the query trimmed at both ends, with nothing else done
  to it; in the text of the URL it stands percent-encoded, as the first parameter.
\<close>

theorem POST_query_verbatim:
  assumes "request_json req = Inr p" and "body_query p = Some q"
    and "\<not> (\<exists>ws. set ws \<subseteq> set whitespace \<and> q = concat ws)"
  shows "\<exists>c. fetches (POST env req) = [c] \<and>
           searchParams_getAll ''query'' (new_URL (url c)) = [trim q] \<and>
           (\<exists>rest. url c =
              SEMANTIC_SCHOLAR_ENDPOINT @ ''?query='' @ urlencoded (trim q) @ ''&limit=15'' @ rest)"
proof -
  let ?c = "\<lparr> url = apiUrl (now env) p, headers = [(''Accept'', ''application/json'')],
              revalidate = 300 \<rparr>"
  from assms(3) have q: "trim q \<noteq> []"
    by (simp add: trim_whitespace_iff)
  have "fetches (POST env req) = [?c]"
    using POST_fetches [of env req] assms(1,2) q
    by (auto simp: POST_accepted Let_def catch_block_def split: sum.splits if_splits)
  moreover have "searchParams_getAll ''query'' (new_URL (url ?c)) = [trim q]"
    using assms(2)
    by (simp add: apiUrl_def Let_def buildQueryURL_params searchParams_getAll_def)
  moreover have "\<exists>rest. url ?c =
      SEMANTIC_SCHOLAR_ENDPOINT @ ''?query='' @ urlencoded (trim q) @ ''&limit=15'' @ rest"
  proof -
    obtain f where f: "apiUrl (now env) p = buildQueryURL (now env) f" "query f = trim q"
      using assms(2) by (simp add: apiUrl_def Let_def)
    from buildQueryURL_text [of "now env" f] obtain rest where
      "buildQueryURL (now env) f =
         SEMANTIC_SCHOLAR_ENDPOINT @ ''?query='' @ urlencoded (query f) @
         ''&limit=15&fields=title%2Cabstract%2Cyear%2Cauthors%2Cvenue%2Curl%2CpublicationTypes%2Cjournal'' @
         rest"
      by blast
    with f show ?thesis by simp
  qed
  ultimately show ?thesis by blast
qed

theorem POST_query_verbatim_witness:
  "trim ''  CAR-T & mRNA (50%)  '' = ''CAR-T & mRNA (50%)'' \<and>
   (\<exists>c. fetches (POST \<lparr> now = \<lparr> getTime = 1793577600000, getFullYear = 2026 \<rparr>, fetch = one_paper \<rparr>
      \<lparr> request_json = Inr \<lparr> body_query = Some ''  CAR-T & mRNA (50%)  '',
          body_startYear = None, body_endYear = None,
          body_publicationType = None \<rparr> \<rparr>) = [c] \<and>
        searchParams_getAll ''query'' (new_URL (url c)) = [''CAR-T & mRNA (50%)''] \<and>
        (\<exists>rest. url c =
           SEMANTIC_SCHOLAR_ENDPOINT @ ''?query='' @ ''CAR-T+%26+mRNA+%2850%25%29'' @
           ''&limit=15'' @ rest))"
proof -
  let ?q = "''  CAR-T & mRNA (50%)  ''"
  let ?p = "\<lparr> body_query = Some ?q, body_startYear = None, body_endYear = None,
              body_publicationType = None \<rparr>"
  have t: "trim ?q = ''CAR-T & mRNA (50%)''"
    by code_simp
  have u: "urlencoded ''CAR-T & mRNA (50%)'' = ''CAR-T+%26+mRNA+%2850%25%29''"
    by code_simp
  from t have "trim ?q \<noteq> []"
    by simp
  then have h: "\<not> (\<exists>ws. set ws \<subseteq> set whitespace \<and> ?q = concat ws)"
    by (simp only: trim_whitespace_iff not_False_eq_True)
  have r: "request_json \<lparr> request_json = Inr ?p \<rparr> = Inr ?p" and b: "body_query ?p = Some ?q"
    by simp_all
  from POST_query_verbatim [OF r b h, of
      "\<lparr> now = \<lparr> getTime = 1793577600000, getFullYear = 2026 \<rparr>, fetch = one_paper \<rparr>"] t u
  show ?thesis
    by simp
qed

text \<open>
  C9. The built URL depends on the clock through the calendar year alone: with the same
  argument and two clock readings of the same year, the two URLs are the same string.
  Its parameters come in one order: \<^verbatim>\<open>query\<close>, \<^verbatim>\<open>limit\<close>, \<^verbatim>\<open>fields\<close>, then \<^verbatim>\<open>filter\<close> if
  there is one.
\<close>

theorem buildQueryURL_deterministic:
  assumes "getFullYear d1 = getFullYear d2"
  shows "buildQueryURL d1 f = buildQueryURL d2 f \<and>
         (\<exists>rest. map fst (searchParams (new_URL (buildQueryURL d1 f))) =
                   [''query'', ''limit'', ''fields''] @ rest \<and>
                 (rest = [] \<or> rest = [''filter'']))"
proof -
  have "buildQueryURL d1 f = buildQueryURL d2 f"
    unfolding buildQueryURL_def assms by (rule refl)
  then show ?thesis by (simp add: buildQueryURL_params)
qed

theorem buildQueryURL_deterministic_witness:
  "buildQueryURL \<lparr> getTime = 1767225600000, getFullYear = 2026 \<rparr>
     \<lparr> query = ''aspirin'', startYear = Some 2010, endYear = None, publicationType = None \<rparr> =
   buildQueryURL \<lparr> getTime = 1793577600000, getFullYear = 2026 \<rparr>
     \<lparr> query = ''aspirin'', startYear = Some 2010, endYear = None, publicationType = None \<rparr>"
  using buildQueryURL_deterministic [of
      "\<lparr> getTime = 1767225600000, getFullYear = 2026 \<rparr>"
      "\<lparr> getTime = 1793577600000, getFullYear = 2026 \<rparr>"
      "\<lparr> query = ''aspirin'', startYear = Some 2010, endYear = None, publicationType = None \<rparr>"]
  by simp

text \<open>
  C7, as stated, fails: \<^verbatim>\<open>2010abc\<close> is not a number, yet the route reads the year 2010
  from it, and the URL it asks for differs from the one it asks for without a start year.
\<close>

theorem POST_startYear_prefix_counterexample:
  "fetches (POST \<lparr> now = \<lparr> getTime = 1793577600000, getFullYear = 2026 \<rparr>, fetch = one_paper \<rparr>
      \<lparr> request_json = Inr \<lparr> body_query = Some ''aspirin'',
          body_startYear = Some ''2010abc'', body_endYear = None,
          body_publicationType = None \<rparr> \<rparr>) \<noteq>
   fetches (POST \<lparr> now = \<lparr> getTime = 1793577600000, getFullYear = 2026 \<rparr>, fetch = one_paper \<rparr>
      \<lparr> request_json = Inr \<lparr> body_query = Some ''aspirin'',
          body_startYear = None, body_endYear = None,
          body_publicationType = None \<rparr> \<rparr>)"
  by code_simp

text \<open>
  C7, amended. A start year in which \<^verbatim>\<open>Number.parseInt\<close> finds no number (after leading
  white space and a sign there is no decimal digit, as in \<^verbatim>\<open>abc\<close>) is as good as none:
  with it or without it the route does the same, call for call, log for log, response
  for response, so no error comes of it.
\<close>

theorem POST_unparsable_startYear:
  assumes "parseInt s = NaN"
  shows "POST env \<lparr> request_json = Inr (p\<lparr> body_startYear := Some s \<rparr>) \<rparr> =
         POST env \<lparr> request_json = Inr (p\<lparr> body_startYear := None \<rparr>) \<rparr>"
proof -
  have "apiUrl (now env) (p\<lparr> body_startYear := Some s \<rparr>) =
        apiUrl (now env) (p\<lparr> body_startYear := None \<rparr>)"
    using assms by (simp add: apiUrl_def Let_def)
  then show ?thesis by (simp add: POST_def)
qed

theorem POST_unparsable_startYear_witness:
  "parseInt ''abc'' = NaN \<and>
   POST \<lparr> now = \<lparr> getTime = 1793577600000, getFullYear = 2026 \<rparr>, fetch = one_paper \<rparr>
     \<lparr> request_json = Inr \<lparr> body_query = Some ''aspirin'',
         body_startYear = Some ''abc'', body_endYear = Some ''2015'',
         body_publicationType = None \<rparr> \<rparr> =
   POST \<lparr> now = \<lparr> getTime = 1793577600000, getFullYear = 2026 \<rparr>, fetch = one_paper \<rparr>
     \<lparr> request_json = Inr \<lparr> body_query = Some ''aspirin'',
         body_startYear = None, body_endYear = Some ''2015'',
         body_publicationType = None \<rparr> \<rparr>"
proof -
  have n: "parseInt ''abc'' = NaN"
    by code_simp
  show ?thesis
    using n
      POST_unparsable_startYear [OF n, of
        "\<lparr> now = \<lparr> getTime = 1793577600000, getFullYear = 2026 \<rparr>, fetch = one_paper \<rparr>"
        "\<lparr> body_query = Some ''aspirin'',
           body_startYear = None, body_endYear = Some ''2015'',
           body_publicationType = None \<rparr>"]
    by simp
qed

text \<open>
  C1. The builder is to emit the year clauses exactly when a bound is present, a missing
  bound taking its default (1900 for the start, the current year for the end), and
  the clauses are \<^verbatim>\<open>year>=<start>\<close> and \<^verbatim>\<open>year<=<end>\<close>. The code tests
  \<^verbatim>\<open>startYear || endYear\<close>, which the year 0 fails: with a start year of 0 and no end
  year the built URL has no \<^verbatim>\<open>filter\<close> parameter, although the next line of the code takes
  a start year of 0 as present and, with an end year beside it, emits \<^verbatim>\<open>year>=0\<close>.
\<close>

theorem buildQueryURL_year_zero:
  "searchParams_getAll ''filter''
     (new_URL (buildQueryURL today
        \<lparr> query = q, startYear = Some 0, endYear = None, publicationType = None \<rparr>)) = [] \<and>
   searchParams_getAll ''filter''
     (new_URL (buildQueryURL today
        \<lparr> query = q, startYear = Some 0, endYear = Some 2015, publicationType = None \<rparr>)) =
     [''year>=0,year<=2015'']"
proof -
  have n: "toString 0 = ''0''" "toString 2015 = ''2015''"
    by code_simp+
  show ?thesis
    by (simp add: buildQueryURL_params searchParams_getAll_def n)
qed

text \<open>
  C10. A year string that starts with an integer is to be read as that integer, which
  then bounds the filter, and only a year string without such a start is dropped. For
  the integer 0 the code does not do so: from \<^verbatim>\<open>0abc\<close> the route reads the year 0 and
  hands it to the builder, and the URL it asks for has no \<^verbatim>\<open>filter\<close> parameter, the same
  as without a start year.
\<close>

theorem POST_startYear_zero_prefix:
  "parseInt ''0abc'' = Num 0 \<and>
   fetches (POST \<lparr> now = today, fetch = provider \<rparr>
      \<lparr> request_json = Inr \<lparr> body_query = Some ''aspirin'',
          body_startYear = Some ''0abc'', body_endYear = None,
          body_publicationType = None \<rparr> \<rparr>) =
     [\<lparr> url = ''https://api.semanticscholar.org/graph/v1/paper/search?query=aspirin&limit=15&fields=title%2Cabstract%2Cyear%2Cauthors%2Cvenue%2Curl%2CpublicationTypes%2Cjournal'',
        headers = [(''Accept'', ''application/json'')], revalidate = 300 \<rparr>]"
proof -
  have n: "parseInt ''0abc'' = Num 0"
    by code_simp
  have t: "trim ''aspirin'' = ''aspirin''"
    by code_simp
  let ?p = "\<lparr> body_query = Some ''aspirin'', body_startYear = Some ''0abc'',
              body_endYear = None, body_publicationType = None \<rparr>"
  have u: "apiUrl today ?p =
      buildQueryURL \<lparr> getTime = 0, getFullYear = 0 \<rparr>
        \<lparr> query = ''aspirin'', startYear = Some 0, endYear = None, publicationType = None \<rparr>"
    by (simp add: apiUrl_def Let_def n t buildQueryURL_def)
  have "buildQueryURL \<lparr> getTime = 0, getFullYear = 0 \<rparr>
        \<lparr> query = ''aspirin'', startYear = Some 0, endYear = None, publicationType = None \<rparr> =
      ''https://api.semanticscholar.org/graph/v1/paper/search?query=aspirin&limit=15&fields=title%2Cabstract%2Cyear%2Cauthors%2Cvenue%2Curl%2CpublicationTypes%2Cjournal''"
    by code_simp
  with u have "apiUrl today ?p =
      ''https://api.semanticscholar.org/graph/v1/paper/search?query=aspirin&limit=15&fields=title%2Cabstract%2Cyear%2Cauthors%2Cvenue%2Curl%2CpublicationTypes%2Cjournal''"
    by simp
  moreover have "fetches (POST \<lparr> now = today, fetch = provider \<rparr> \<lparr> request_json = Inr ?p \<rparr>) =
      [\<lparr> url = apiUrl today ?p, headers = [(''Accept'', ''application/json'')], revalidate = 300 \<rparr>]"
    using POST_fetches [of "\<lparr> now = today, fetch = provider \<rparr>" "\<lparr> request_json = Inr ?p \<rparr>"]
    by (auto simp: POST_accepted t Let_def catch_block_def split: sum.splits if_splits)
  ultimately show ?thesis using n by simp
qed

end
